theory Spec2Isabelle
  imports Complex_Main
begin

section \<open>Optical Morse decoder: the timing state machine of detector.py\<close>

text \<open>
  The embedding follows \<^verbatim>\<open>main_receiver\<close> and \<^verbatim>\<open>decode_morse\<close> of
  \<^verbatim>\<open>src/detector.py\<close>. Python strings are \<open>string\<close>, the dictionary literal is
  an association list read through \<open>map_of\<close>, and the local variables of
  \<^verbatim>\<open>main_receiver\<close> that the decoding logic reads or writes form one record that
  every block takes and returns. The camera, the window and the drawing calls are not
  modelled; of the display-only variables the record keeps \<open>display_symbol_action\<close>,
  which the decoding blocks assign, and leaves out \<open>live_brightness\<close> and
  \<open>current_on_duration\<close>, which they never touch.

  Time stamps are the values of \<^verbatim>\<open>time.time()\<close>. They are modelled as real
  numbers: a duration is the exact difference of two stamps, and the rounding of the
  floating-point subtraction is not modelled. The concrete time stamps used below are
  chosen so that the floating-point difference is exact as well.
\<close>

subsection \<open>Configuration constants (lines 13-16, 117)\<close>

definition DOT_DASH_THRESHOLD_S :: real where
  "DOT_DASH_THRESHOLD_S = 0.400"

definition LETTER_GAP_THRESHOLD_S :: real where
  "LETTER_GAP_THRESHOLD_S = 0.500"

definition WORD_GAP_THRESHOLD_S :: real where
  "WORD_GAP_THRESHOLD_S = 1.000"

definition PRINT_INTERVAL :: real where
  "PRINT_INTERVAL = 0.5"

subsection \<open>The lookup table and \<^verbatim>\<open>decode_morse\<close> (lines 43-51, 82-84)\<close>

text \<open>The items of the dictionary literal, in the order of the source.\<close>

definition MORSE_TO_TEXT_items :: "(string \<times> string) list" where
  "MORSE_TO_TEXT_items =
    [(''.-'', ''A''), (''-...'', ''B''), (''-.-.'', ''C''), (''-..'', ''D''), (''.'', ''E''), (''..-.'', ''F''),
     (''--.'', ''G''), (''....'', ''H''), (''..'', ''I''), (''.---'', ''J''), (''-.-'', ''K''), (''.-..'', ''L''),
     (''--'', ''M''), (''-.'', ''N''), (''---'', ''O''), (''.--.'', ''P''), (''--.-'', ''Q''), (''.-.'', ''R''),
     (''...'', ''S''), (''-'', ''T''), (''..-'', ''U''), (''...-'', ''V''), (''.--'', ''W''), (''-..-'', ''X''),
     (''-.--'', ''Y''), (''--..'', ''Z''),
     (''.----'', ''1''), (''..---'', ''2''), (''...--'', ''3''), (''....-'', ''4''), (''.....'', ''5''),
     (''-....'', ''6''), (''--...'', ''7''), (''---..'', ''8''), (''----.'', ''9''), (''-----'', ''0'')]"

definition MORSE_TO_TEXT :: "string \<rightharpoonup> string" where
  "MORSE_TO_TEXT = map_of MORSE_TO_TEXT_items"

text \<open>\<^verbatim>\<open>morse_table.get(morse_code, '#')\<close>: the value stored under the key, else the default.\<close>

definition decode_morse :: "string \<Rightarrow> (string \<rightharpoonup> string) \<Rightarrow> string" where
  "decode_morse morse_code morse_table =
     (case morse_table morse_code of Some v \<Rightarrow> v | None \<Rightarrow> ''#'')"

text \<open>
  The reference the table is compared with: international Morse code, written from the
  standard (letter by letter, then the digits \<open>0\<close> to \<open>9\<close>), independently of the
  source's dictionary.
\<close>

definition international_morse :: "(char \<times> string) list" where
  "international_morse =
    [(CHR ''A'', ''.-''), (CHR ''B'', ''-...''), (CHR ''C'', ''-.-.''), (CHR ''D'', ''-..''),
     (CHR ''E'', ''.''), (CHR ''F'', ''..-.''), (CHR ''G'', ''--.''), (CHR ''H'', ''....''),
     (CHR ''I'', ''..''), (CHR ''J'', ''.---''), (CHR ''K'', ''-.-''), (CHR ''L'', ''.-..''),
     (CHR ''M'', ''--''), (CHR ''N'', ''-.''), (CHR ''O'', ''---''), (CHR ''P'', ''.--.''),
     (CHR ''Q'', ''--.-''), (CHR ''R'', ''.-.''), (CHR ''S'', ''...''), (CHR ''T'', ''-''),
     (CHR ''U'', ''..-''), (CHR ''V'', ''...-''), (CHR ''W'', ''.--''), (CHR ''X'', ''-..-''),
     (CHR ''Y'', ''-.--''), (CHR ''Z'', ''--..''),
     (CHR ''0'', ''-----''), (CHR ''1'', ''.----''), (CHR ''2'', ''..---''), (CHR ''3'', ''...--''),
     (CHR ''4'', ''....-''), (CHR ''5'', ''.....''), (CHR ''6'', ''-....''), (CHR ''7'', ''--...''),
     (CHR ''8'', ''---..''), (CHR ''9'', ''----.'')]"

subsection \<open>Python string operations used by the decoder\<close>

text \<open>\<^verbatim>\<open>s.endswith(suffix)\<close>.\<close>

definition endswith :: "string \<Rightarrow> string \<Rightarrow> bool" where
  "endswith s suffix =
     (length suffix \<le> length s \<and> drop (length s - length suffix) s = suffix)"

text \<open>
  \<^verbatim>\<open>str.isspace\<close> on one character, for the code points below 256: tab, line
  feed, vertical tab, form feed, carriage return, the four separators \<open>0x1C\<close> to
  \<open>0x1F\<close>, space, next line (\<open>0x85\<close>) and no-break space (\<open>0xA0\<close>).
\<close>

definition py_isspace :: "char \<Rightarrow> bool" where
  "py_isspace c = (of_char c \<in> {9, 10, 11, 12, 13, 28, 29, 30, 31, 32, 133, 160 :: nat})"

text \<open>\<^verbatim>\<open>s.strip()\<close>: leading and trailing whitespace removed.\<close>

definition strip :: "string \<Rightarrow> string" where
  "strip s = rev (dropWhile py_isspace (rev (dropWhile py_isspace s)))"

subsection \<open>The variables of \<^verbatim>\<open>main_receiver\<close> (lines 104-117)\<close>

record receiver =
  led_state :: int
  current_morse_symbol :: string
  decoded_message :: string
  last_state_change_time :: real
  display_symbol_action :: string
  last_print_time :: real

text \<open>
  The values before the loop. \<open>t0\<close> and \<open>t1\<close> are the two readings of
  \<^verbatim>\<open>time.time()\<close> at lines 110 and 116.
\<close>

definition initial :: "real \<Rightarrow> real \<Rightarrow> receiver" where
  "initial t0 t1 =
     \<lparr>led_state = 0, current_morse_symbol = '''', decoded_message = '''',
      last_state_change_time = t0, display_symbol_action = ''IDLE'', last_print_time = t1\<rparr>"

subsection \<open>The state machine (lines 153-200)\<close>

text \<open>
  The flush that lines 163-165 and 181-183 both perform: a non-empty symbol buffer is
  decoded, appended to the message and emptied.
\<close>

definition flush_symbol :: "receiver \<Rightarrow> receiver" where
  "flush_symbol s =
     (if current_morse_symbol s \<noteq> '''' then
        s\<lparr>decoded_message := decoded_message s @ decode_morse (current_morse_symbol s) MORSE_TO_TEXT,
          current_morse_symbol := ''''\<rparr>
      else s)"

text \<open>Lines 160-177: the LED was off and is now on.\<close>

definition rising_edge :: "receiver \<Rightarrow> real \<Rightarrow> real \<Rightarrow> receiver" where
  "rising_edge s current_time time_elapsed =
     (let off_duration = time_elapsed;
          s1 = (if off_duration \<ge> WORD_GAP_THRESHOLD_S then
                  (let sa = flush_symbol s in
                   if \<not> endswith (decoded_message sa) '' '' then
                     sa\<lparr>decoded_message := decoded_message sa @ '' '',
                        display_symbol_action := ''WORD_SPACE''\<rparr>
                   else sa)
                else if off_duration \<ge> LETTER_GAP_THRESHOLD_S then
                  (if current_morse_symbol s \<noteq> '''' then
                     s\<lparr>decoded_message :=
                          decoded_message s @ decode_morse (current_morse_symbol s) MORSE_TO_TEXT,
                       current_morse_symbol := '''',
                       display_symbol_action := ''LETTER_SPACE''\<rparr>
                   else s)
                else s)
      in s1\<lparr>led_state := 1, last_state_change_time := current_time\<rparr>)"

text \<open>
  The branch of the chain at lines 162 and 170 that an off-duration selects. The source
  has no function of this name: the chain is written inline in the rising-edge block,
  and \<open>classify_off_duration\<close> names its three outcomes.
\<close>

datatype gap = NoGap | LetterGap | WordGap

definition classify_off_duration :: "real \<Rightarrow> gap" where
  "classify_off_duration off_duration =
     (if off_duration \<ge> WORD_GAP_THRESHOLD_S then WordGap
      else if off_duration \<ge> LETTER_GAP_THRESHOLD_S then LetterGap
      else NoGap)"

text \<open>Lines 179-186: the LED was off and still is; the periodic silence check.\<close>

definition silence_check :: "receiver \<Rightarrow> real \<Rightarrow> real \<Rightarrow> receiver" where
  "silence_check s current_time time_elapsed =
     (if current_time - last_print_time s > PRINT_INTERVAL then
        (let s1 = (if time_elapsed > WORD_GAP_THRESHOLD_S
                      \<and> \<not> endswith (decoded_message s) '' '' then
                     (let sa = flush_symbol s in
                      sa\<lparr>decoded_message := decoded_message sa @ '' '',
                         display_symbol_action := ''WORD_SPACE (Continuous)''\<rparr>)
                   else s)
         in s1\<lparr>last_print_time := current_time\<rparr>)
      else s)"

text \<open>Lines 190-200: the LED was on and is now off.\<close>

definition falling_edge :: "receiver \<Rightarrow> real \<Rightarrow> real \<Rightarrow> receiver" where
  "falling_edge s current_time time_elapsed =
     (let on_duration = time_elapsed;
          s1 = (if on_duration < DOT_DASH_THRESHOLD_S then
                  s\<lparr>current_morse_symbol := current_morse_symbol s @ ''.'',
                    display_symbol_action := ''DOT''\<rparr>
                else
                  s\<lparr>current_morse_symbol := current_morse_symbol s @ ''-'',
                    display_symbol_action := ''DASH''\<rparr>)
      in s1\<lparr>led_state := 0, last_state_change_time := current_time\<rparr>)"

text \<open>Lines 153-200: one pass of the state machine on a sample.\<close>

definition state_machine :: "receiver \<Rightarrow> real \<Rightarrow> bool \<Rightarrow> receiver" where
  "state_machine s current_time is_led_on =
     (let time_elapsed = current_time - last_state_change_time s in
      if led_state s = 0 then
        (if is_led_on then rising_edge s current_time time_elapsed
         else silence_check s current_time time_elapsed)
      else if led_state s = 1 then
        (if \<not> is_led_on then falling_edge s current_time time_elapsed else s)
      else s)"

subsection \<open>Keyboard commands and the end of the program (lines 293-319)\<close>

text \<open>Lines 301-305: key \<open>c\<close>. \<open>now\<close> is the reading of \<^verbatim>\<open>time.time()\<close> at line 305.\<close>

definition clear_output :: "receiver \<Rightarrow> real \<Rightarrow> receiver" where
  "clear_output s now =
     s\<lparr>current_morse_symbol := '''', decoded_message := '''',
       display_symbol_action := ''OUTPUT CLEARED'', last_state_change_time := now\<rparr>"

text \<open>Lines 315-316: the final decode check. The symbol buffer is not assigned.\<close>

definition final_decode :: "receiver \<Rightarrow> receiver" where
  "final_decode s =
     (if current_morse_symbol s \<noteq> '''' then
        s\<lparr>decoded_message :=
            decoded_message s @ decode_morse (current_morse_symbol s) MORSE_TO_TEXT\<rparr>
      else s)"

text \<open>Line 319: the text printed after \<^verbatim>\<open>Final Decoded Message:\<close>.\<close>

definition final_output :: "receiver \<Rightarrow> string" where
  "final_output s = strip (decoded_message (final_decode s))"

subsection \<open>The main loop (lines 121-308)\<close>

text \<open>
  What one pass of the loop reads from the outside: whether \<^verbatim>\<open>cap.read()\<close>
  succeeded, whether the region of interest fits the frame, the time and the thresholded
  brightness, and the key returned by \<^verbatim>\<open>cv2.waitKey\<close>. The list of frames is the
  finite run that is observed: the loop leaves on a failed read or on key \<open>q\<close>, and
  the end of the list stands for the end of the observation.
\<close>

datatype key = NoKey | KeyQ | KeyC real

datatype frame = ReadFailed | OutOfBounds | Frame real bool key

fun main_loop :: "receiver \<Rightarrow> frame list \<Rightarrow> receiver" where
  "main_loop s [] = s"
| "main_loop s (ReadFailed # fs) = s"
| "main_loop s (OutOfBounds # fs) = main_loop s fs"
| "main_loop s (Frame current_time is_led_on k # fs) =
     (let s1 = state_machine s current_time is_led_on in
      case k of
        KeyQ \<Rightarrow> s1
      | KeyC now \<Rightarrow> main_loop (clear_output s1 now) fs
      | NoKey \<Rightarrow> main_loop s1 fs)"

text \<open>
  \<^verbatim>\<open>main_receiver\<close>: nothing is printed when the camera cannot be opened (line 95);
  otherwise the loop runs on the frames and the final message is printed.
\<close>

definition main_receiver :: "bool \<Rightarrow> real \<Rightarrow> real \<Rightarrow> frame list \<Rightarrow> string option" where
  "main_receiver is_opened t0 t1 frames =
     (if \<not> is_opened then None
      else Some (final_output (main_loop (initial t0 t1) frames)))"

subsection \<open>Sequences of samples and reset commands\<close>

text \<open>
  The two ways the decoder variables change inside the loop, as events: a sample
  (time, LED on) passed to the state machine, and the clear command with its time. A
  silence check is a sample with the LED off taken while \<open>led_state\<close> is 0.
\<close>

datatype event = Sample real bool | Clear real

fun step :: "receiver \<Rightarrow> event \<Rightarrow> receiver" where
  "step s (Sample current_time is_led_on) = state_machine s current_time is_led_on"
| "step s (Clear now) = clear_output s now"

definition run :: "receiver \<Rightarrow> event list \<Rightarrow> receiver" where
  "run s evs = foldl step s evs"

subsection \<open>Predicates on messages\<close>

definition space :: char where
  "space = CHR '' ''"

fun has_double_space :: "string \<Rightarrow> bool" where
  "has_double_space [] = False"
| "has_double_space [x] = False"
| "has_double_space (x # y # zs) = ((x = space \<and> y = space) \<or> has_double_space (y # zs))"

definition message_alphabet :: "char set" where
  "message_alphabet = set ''ABCDEFGHIJKLMNOPQRSTUVWXYZ0123456789# ''"

text \<open>Leading and trailing space characters removed.\<close>

definition trim_spaces :: "string \<Rightarrow> string" where
  "trim_spaces s = rev (dropWhile (\<lambda>c. c = space) (rev (dropWhile (\<lambda>c. c = space) s)))"

section \<open>Properties\<close>

subsection \<open>The lookup table\<close>

lemma MORSE_TO_TEXT_keys_distinct: "distinct (map fst MORSE_TO_TEXT_items)"
  by (simp add: MORSE_TO_TEXT_items_def)

lemma MORSE_TO_TEXT_size: "length MORSE_TO_TEXT_items = 36"
  by (simp add: MORSE_TO_TEXT_items_def)

lemma decode_morse_hit:
  "(p, v) \<in> set MORSE_TO_TEXT_items \<Longrightarrow> decode_morse p MORSE_TO_TEXT = v"
  using MORSE_TO_TEXT_keys_distinct
  by (simp add: decode_morse_def MORSE_TO_TEXT_def)

lemma decode_morse_miss:
  assumes "p \<notin> set (map fst MORSE_TO_TEXT_items)"
  shows "decode_morse p MORSE_TO_TEXT = ''#''"
proof -
  from assms have "map_of MORSE_TO_TEXT_items p = None"
    by (simp add: map_of_eq_None_iff)
  then show ?thesis
    by (simp add: decode_morse_def MORSE_TO_TEXT_def)
qed

lemma set_rotate_one: "set (take n xs @ drop (Suc n) xs @ take 1 (drop n xs)) = set xs"
proof -
  have "drop n xs = take 1 (drop n xs) @ drop (Suc n) xs"
    by (metis append_take_drop_id drop_drop plus_1_eq_Suc)
  then have "xs = take n xs @ take 1 (drop n xs) @ drop (Suc n) xs"
    by (metis append_take_drop_id)
  then have "set xs = set (take n xs @ take 1 (drop n xs) @ drop (Suc n) xs)"
    by simp
  then show ?thesis by auto
qed

lemma MORSE_TO_TEXT_items_international:
  "MORSE_TO_TEXT_items =
     map (\<lambda>(c, p). (p, [c]))
       (take 26 international_morse @ drop (Suc 26) international_morse
          @ take 1 (drop 26 international_morse))"
  by (simp add: MORSE_TO_TEXT_items_def international_morse_def)

lemma set_MORSE_TO_TEXT_items:
  "set MORSE_TO_TEXT_items = (\<lambda>(c, p). (p, [c])) ` set international_morse"
  unfolding MORSE_TO_TEXT_items_international set_map set_rotate_one ..

lemma intl_in_table:
  "(c, p) \<in> set international_morse \<Longrightarrow> (p, [c]) \<in> set MORSE_TO_TEXT_items"
  unfolding set_MORSE_TO_TEXT_items by force

lemma table_in_intl:
  "(p, v) \<in> set MORSE_TO_TEXT_items \<Longrightarrow> \<exists>c. v = [c] \<and> (c, p) \<in> set international_morse"
  unfolding set_MORSE_TO_TEXT_items by auto

lemma intl_chars: "map fst international_morse = ''ABCDEFGHIJKLMNOPQRSTUVWXYZ0123456789''"
  by (simp add: international_morse_def)

text \<open>
  C7. \<open>decode_morse\<close> is a total function of the pattern alone: each of the 36
  international Morse encodings of \<open>A\<close> to \<open>Z\<close> and \<open>0\<close> to \<open>9\<close> yields its
  letter or digit, the table has exactly these 36 entries, and the empty pattern and
  every pattern that is none of the 36 encodings yield the placeholder \<open>#\<close>.
\<close>

theorem decode_morse_total:
  "(\<forall>(c, p) \<in> set international_morse. decode_morse p MORSE_TO_TEXT = [c])
   \<and> map fst international_morse = ''ABCDEFGHIJKLMNOPQRSTUVWXYZ0123456789''
   \<and> length MORSE_TO_TEXT_items = 36
   \<and> decode_morse '''' MORSE_TO_TEXT = ''#''
   \<and> (pattern \<notin> snd ` set international_morse \<longrightarrow> decode_morse pattern MORSE_TO_TEXT = ''#'')"
proof (intro conjI)
  show "\<forall>(c, p) \<in> set international_morse. decode_morse p MORSE_TO_TEXT = [c]"
    using intl_in_table decode_morse_hit by blast
  show "map fst international_morse = ''ABCDEFGHIJKLMNOPQRSTUVWXYZ0123456789''"
    by (rule intl_chars)
  show "length MORSE_TO_TEXT_items = 36" by (rule MORSE_TO_TEXT_size)
  show "decode_morse '''' MORSE_TO_TEXT = ''#''"
    by (rule decode_morse_miss) (simp add: MORSE_TO_TEXT_items_def)
  show "pattern \<notin> snd ` set international_morse \<longrightarrow> decode_morse pattern MORSE_TO_TEXT = ''#''"
  proof
    assume a: "pattern \<notin> snd ` set international_morse"
    have "pattern \<notin> set (map fst MORSE_TO_TEXT_items)"
    proof
      assume "pattern \<in> set (map fst MORSE_TO_TEXT_items)"
      then obtain v where "(pattern, v) \<in> set MORSE_TO_TEXT_items" by auto
      then obtain c where "(c, pattern) \<in> set international_morse"
        using table_in_intl by blast
      then have "pattern \<in> snd ` set international_morse" by force
      with a show False by contradiction
    qed
    then show "decode_morse pattern MORSE_TO_TEXT = ''#''" by (rule decode_morse_miss)
  qed
qed

theorem decode_morse_total_witness:
  "decode_morse ''...'' MORSE_TO_TEXT = ''S'' \<and> decode_morse ''-----'' MORSE_TO_TEXT = ''0''
   \<and> decode_morse '''' MORSE_TO_TEXT = ''#'' \<and> decode_morse ''......'' MORSE_TO_TEXT = ''#''"
proof -
  have a: "(CHR ''S'', ''...'') \<in> set international_morse"
    by (simp add: international_morse_def)
  have b: "(CHR ''0'', ''-----'') \<in> set international_morse"
    by (simp add: international_morse_def)
  have c: "''......'' \<notin> snd ` set international_morse"
    by (simp add: international_morse_def)
  from decode_morse_total [of "''......''"] a b c show ?thesis by blast
qed

lemma decode_morse_char:
  "\<exists>c. decode_morse p MORSE_TO_TEXT = [c] \<and> c \<in> message_alphabet \<and> c \<noteq> space"
proof (cases "p \<in> set (map fst MORSE_TO_TEXT_items)")
  case False
  then have "decode_morse p MORSE_TO_TEXT = ''#''" by (rule decode_morse_miss)
  then show ?thesis by (simp add: message_alphabet_def space_def)
next
  case True
  then obtain v where v: "(p, v) \<in> set MORSE_TO_TEXT_items" by auto
  then obtain c where c: "v = [c]" "(c, p) \<in> set international_morse"
    using table_in_intl by blast
  from c(2) have "c \<in> set (map fst international_morse)" by force
  then have "c \<in> set ''ABCDEFGHIJKLMNOPQRSTUVWXYZ0123456789''"
    by (simp only: intl_chars)
  then have "c \<in> message_alphabet \<and> c \<noteq> space"
    by (auto simp: message_alphabet_def space_def)
  with v c(1) decode_morse_hit show ?thesis by blast
qed

subsection \<open>Decoded characters, thresholds and string facts\<close>

lemma decode_E: "decode_morse ''.'' MORSE_TO_TEXT = ''E''"
  by (simp add: decode_morse_def MORSE_TO_TEXT_def MORSE_TO_TEXT_items_def)

lemma decode_T: "decode_morse ''-'' MORSE_TO_TEXT = ''T''"
  by (simp add: decode_morse_def MORSE_TO_TEXT_def MORSE_TO_TEXT_items_def)

lemma decode_H: "decode_morse ''....'' MORSE_TO_TEXT = ''H''"
  by (simp add: decode_morse_def MORSE_TO_TEXT_def MORSE_TO_TEXT_items_def)

lemma endswith_space: "endswith m '' '' \<longleftrightarrow> m \<noteq> [] \<and> last m = space"
proof (cases m rule: rev_cases)
  case Nil
  then show ?thesis by (simp add: endswith_def)
next
  case (snoc ys y)
  then show ?thesis by (auto simp: endswith_def space_def)
qed

lemma thresholds_ordered:
  "0 < DOT_DASH_THRESHOLD_S" "DOT_DASH_THRESHOLD_S < LETTER_GAP_THRESHOLD_S"
  "LETTER_GAP_THRESHOLD_S < WORD_GAP_THRESHOLD_S"
  by (simp_all add: DOT_DASH_THRESHOLD_S_def LETTER_GAP_THRESHOLD_S_def WORD_GAP_THRESHOLD_S_def)

lemma threshold_values:
  "DOT_DASH_THRESHOLD_S = 2/5" "LETTER_GAP_THRESHOLD_S = 1/2" "WORD_GAP_THRESHOLD_S = 1"
  "PRINT_INTERVAL = 1/2"
  by (simp_all add: DOT_DASH_THRESHOLD_S_def LETTER_GAP_THRESHOLD_S_def
      WORD_GAP_THRESHOLD_S_def PRINT_INTERVAL_def)

subsection \<open>Edges\<close>

text \<open>
  C1. On a rising edge (\<open>led_state = 0\<close>, LED on), with the off-duration
  \<open>t - last_state_change_time\<close>: at or above the word gap a non-empty buffer is
  decoded, appended and emptied, and a space is appended exactly when the message then
  does not end with one; from the letter gap up to the word gap a non-empty buffer is
  decoded, appended and emptied and no space is added; below the letter gap both buffers
  are unchanged. In every case \<open>led_state\<close> becomes 1 and
  \<open>last_state_change_time\<close> becomes the sample's time.
\<close>

theorem rising_edge_effect:
  assumes "led_state s = 0"
  shows "(WORD_GAP_THRESHOLD_S \<le> t - last_state_change_time s \<longrightarrow>
            current_morse_symbol (state_machine s t True) = ''''
          \<and> decoded_message (state_machine s t True) =
              (if endswith (decoded_message (flush_symbol s)) '' ''
               then decoded_message (flush_symbol s)
               else decoded_message (flush_symbol s) @ '' ''))
       \<and> (LETTER_GAP_THRESHOLD_S \<le> t - last_state_change_time s
            \<and> t - last_state_change_time s < WORD_GAP_THRESHOLD_S \<longrightarrow>
            current_morse_symbol (state_machine s t True) = ''''
          \<and> decoded_message (state_machine s t True) = decoded_message (flush_symbol s))
       \<and> (t - last_state_change_time s < LETTER_GAP_THRESHOLD_S \<longrightarrow>
            current_morse_symbol (state_machine s t True) = current_morse_symbol s
          \<and> decoded_message (state_machine s t True) = decoded_message s)
       \<and> decoded_message (flush_symbol s) =
            (if current_morse_symbol s \<noteq> ''''
             then decoded_message s @ decode_morse (current_morse_symbol s) MORSE_TO_TEXT
             else decoded_message s)
       \<and> led_state (state_machine s t True) = 1
       \<and> last_state_change_time (state_machine s t True) = t"
  using assms thresholds_ordered
  by (auto simp: state_machine_def rising_edge_def flush_symbol_def Let_def)

text \<open>The three branches on a buffer holding \<open>....\<close> (H) after silences of 1.5, 0.75 and 0.25 s.\<close>

theorem rising_edge_effect_witness:
  "led_state \<lparr>led_state = 0, current_morse_symbol = ''....'', decoded_message = '''',
      last_state_change_time = 2, display_symbol_action = ''DOT'', last_print_time = 0\<rparr> = 0
   \<and> decoded_message (state_machine \<lparr>led_state = 0, current_morse_symbol = ''....'',
        decoded_message = '''', last_state_change_time = 2, display_symbol_action = ''DOT'',
        last_print_time = 0\<rparr> 3.5 True) = ''H ''
   \<and> decoded_message (state_machine \<lparr>led_state = 0, current_morse_symbol = ''....'',
        decoded_message = '''', last_state_change_time = 2, display_symbol_action = ''DOT'',
        last_print_time = 0\<rparr> 2.75 True) = ''H''
   \<and> current_morse_symbol (state_machine \<lparr>led_state = 0, current_morse_symbol = ''....'',
        decoded_message = '''', last_state_change_time = 2, display_symbol_action = ''DOT'',
        last_print_time = 0\<rparr> 2.25 True) = ''....''"
proof -
  let ?s = "\<lparr>led_state = 0, current_morse_symbol = ''....'', decoded_message = '''',
      last_state_change_time = 2, display_symbol_action = ''DOT'', last_print_time = 0\<rparr>"
  have h: "led_state ?s = 0" by simp
  have f: "decoded_message (flush_symbol ?s) = ''H''"
    by (simp add: flush_symbol_def decode_H)
  from rising_edge_effect [OF h, of "3.5"] f
  have a: "decoded_message (state_machine ?s 3.5 True) = ''H ''"
    by (simp add: threshold_values endswith_def)
  from rising_edge_effect [OF h, of "2.75"] f
  have b: "decoded_message (state_machine ?s 2.75 True) = ''H''"
    by (simp add: threshold_values)
  from rising_edge_effect [OF h, of "2.25"]
  have c: "current_morse_symbol (state_machine ?s 2.25 True) = ''....''"
    by (simp add: threshold_values)
  from h a b c show ?thesis by blast
qed

text \<open>
  C6. The branch of the rising-edge chain is \<open>NoGap\<close> exactly below the letter-gap
  threshold, \<open>LetterGap\<close> exactly from the letter-gap threshold up to (not including)
  the word-gap threshold, and \<open>WordGap\<close> exactly from the word-gap threshold on; each
  threshold value itself belongs to the higher category; and the rising-edge block does
  what the selected branch says.
\<close>

theorem off_duration_partition:
  "(classify_off_duration d = NoGap \<longleftrightarrow> d < LETTER_GAP_THRESHOLD_S)
   \<and> (classify_off_duration d = LetterGap \<longleftrightarrow>
        LETTER_GAP_THRESHOLD_S \<le> d \<and> d < WORD_GAP_THRESHOLD_S)
   \<and> (classify_off_duration d = WordGap \<longleftrightarrow> WORD_GAP_THRESHOLD_S \<le> d)
   \<and> classify_off_duration LETTER_GAP_THRESHOLD_S = LetterGap
   \<and> classify_off_duration WORD_GAP_THRESHOLD_S = WordGap
   \<and> rising_edge s t d =
       (case classify_off_duration d of
          WordGap \<Rightarrow>
            (if \<not> endswith (decoded_message (flush_symbol s)) '' '' then
               (flush_symbol s)\<lparr>decoded_message := decoded_message (flush_symbol s) @ '' '',
                                display_symbol_action := ''WORD_SPACE''\<rparr>
             else flush_symbol s)
        | LetterGap \<Rightarrow>
            (if current_morse_symbol s \<noteq> '''' then
               (flush_symbol s)\<lparr>display_symbol_action := ''LETTER_SPACE''\<rparr>
             else s)
        | NoGap \<Rightarrow> s)\<lparr>led_state := 1, last_state_change_time := t\<rparr>"
  using thresholds_ordered
  by (auto simp: classify_off_duration_def rising_edge_def flush_symbol_def Let_def)

text \<open>
  C3. On a falling edge (\<open>led_state = 1\<close>, LED off), with the on-duration
  \<open>t - last_state_change_time\<close>: a dot is appended to the symbol buffer below the
  dot/dash threshold and a dash at or above it; \<open>led_state\<close> becomes 0,
  \<open>last_state_change_time\<close> becomes the sample's time, and the message is unchanged.
\<close>

theorem falling_edge_effect:
  assumes "led_state s = 1"
  shows "(t - last_state_change_time s < DOT_DASH_THRESHOLD_S \<longrightarrow>
            current_morse_symbol (state_machine s t False) = current_morse_symbol s @ ''.'')
       \<and> (DOT_DASH_THRESHOLD_S \<le> t - last_state_change_time s \<longrightarrow>
            current_morse_symbol (state_machine s t False) = current_morse_symbol s @ ''-'')
       \<and> led_state (state_machine s t False) = 0
       \<and> last_state_change_time (state_machine s t False) = t
       \<and> decoded_message (state_machine s t False) = decoded_message s"
  using assms
  by (auto simp: state_machine_def falling_edge_def Let_def)

text \<open>An on-duration of 0.25 s gives a dot; the threshold value 0.4 s itself gives a dash.\<close>

theorem falling_edge_effect_witness:
  "led_state \<lparr>led_state = 1, current_morse_symbol = ''.'', decoded_message = ''E'',
      last_state_change_time = 0, display_symbol_action = ''DOT'', last_print_time = 0\<rparr> = 1
   \<and> current_morse_symbol (state_machine \<lparr>led_state = 1, current_morse_symbol = ''.'',
        decoded_message = ''E'', last_state_change_time = 0, display_symbol_action = ''DOT'',
        last_print_time = 0\<rparr> 0.25 False) = ''..''
   \<and> current_morse_symbol (state_machine \<lparr>led_state = 1, current_morse_symbol = ''.'',
        decoded_message = ''E'', last_state_change_time = 0, display_symbol_action = ''DOT'',
        last_print_time = 0\<rparr> 0.4 False) = ''.-''
   \<and> decoded_message (state_machine \<lparr>led_state = 1, current_morse_symbol = ''.'',
        decoded_message = ''E'', last_state_change_time = 0, display_symbol_action = ''DOT'',
        last_print_time = 0\<rparr> 0.4 False) = ''E''"
proof -
  let ?s = "\<lparr>led_state = 1, current_morse_symbol = ''.'', decoded_message = ''E'',
      last_state_change_time = 0, display_symbol_action = ''DOT'', last_print_time = 0\<rparr>"
  have h: "led_state ?s = 1" by simp
  from falling_edge_effect [OF h, of "0.25"]
  have a: "current_morse_symbol (state_machine ?s 0.25 False) = ''..''"
    by (simp add: threshold_values)
  from falling_edge_effect [OF h, of "0.4"]
  have b: "current_morse_symbol (state_machine ?s 0.4 False) = ''.-''"
    and c: "decoded_message (state_machine ?s 0.4 False) = ''E''"
    by (simp_all add: threshold_values)
  from h a b c show ?thesis by blast
qed

text \<open>
  C9. A sample whose time is not later than \<open>last_state_change_time\<close> is processed
  like any other (the model has no error branch, as the source has none on this path)
  and falls into the lowest category: on a falling edge a dot is appended; on a rising
  edge nothing is flushed and no space is appended, only \<open>led_state\<close> and
  \<open>last_state_change_time\<close> change.
\<close>

theorem nonpositive_duration:
  assumes "t \<le> last_state_change_time s"
  shows "(led_state s = 1 \<longrightarrow>
            state_machine s t False =
              s\<lparr>current_morse_symbol := current_morse_symbol s @ ''.'',
                display_symbol_action := ''DOT'', led_state := 0,
                last_state_change_time := t\<rparr>)
       \<and> (led_state s = 0 \<longrightarrow>
            state_machine s t True = s\<lparr>led_state := 1, last_state_change_time := t\<rparr>)"
  using assms thresholds_ordered
  by (auto simp: state_machine_def rising_edge_def falling_edge_def Let_def)

text \<open>A duplicate time stamp on a falling edge and an earlier one on a rising edge.\<close>

theorem nonpositive_duration_witness:
  "(5::real) \<le> last_state_change_time \<lparr>led_state = 1, current_morse_symbol = ''-'',
      decoded_message = ''E'', last_state_change_time = 5, display_symbol_action = ''DASH'',
      last_print_time = 4\<rparr>
   \<and> current_morse_symbol (state_machine \<lparr>led_state = 1, current_morse_symbol = ''-'',
        decoded_message = ''E'', last_state_change_time = 5, display_symbol_action = ''DASH'',
        last_print_time = 4\<rparr> 5 False) = ''-.''
   \<and> (4::real) \<le> last_state_change_time \<lparr>led_state = 0, current_morse_symbol = ''-'',
        decoded_message = ''E'', last_state_change_time = 5, display_symbol_action = ''DASH'',
        last_print_time = 4\<rparr>
   \<and> current_morse_symbol (state_machine \<lparr>led_state = 0, current_morse_symbol = ''-'',
        decoded_message = ''E'', last_state_change_time = 5, display_symbol_action = ''DASH'',
        last_print_time = 4\<rparr> 4 True) = ''-''
   \<and> decoded_message (state_machine \<lparr>led_state = 0, current_morse_symbol = ''-'',
        decoded_message = ''E'', last_state_change_time = 5, display_symbol_action = ''DASH'',
        last_print_time = 4\<rparr> 4 True) = ''E''"
proof -
  let ?on = "\<lparr>led_state = 1, current_morse_symbol = ''-'', decoded_message = ''E'',
      last_state_change_time = 5, display_symbol_action = ''DASH'', last_print_time = 4\<rparr>"
  let ?off = "\<lparr>led_state = 0, current_morse_symbol = ''-'', decoded_message = ''E'',
      last_state_change_time = 5, display_symbol_action = ''DASH'', last_print_time = 4\<rparr>"
  have h1: "(5::real) \<le> last_state_change_time ?on" by simp
  have h2: "(4::real) \<le> last_state_change_time ?off" by simp
  from nonpositive_duration [OF h1]
  have a: "current_morse_symbol (state_machine ?on 5 False) = ''-.''" by simp
  from nonpositive_duration [OF h2]
  have b: "current_morse_symbol (state_machine ?off 4 True) = ''-''"
    and c: "decoded_message (state_machine ?off 4 True) = ''E''" by simp_all
  from h1 h2 a b c show ?thesis by blast
qed

subsection \<open>The silence check\<close>

text \<open>
  C4. A silence check at time \<open>now\<close> taken while \<open>led_state = 0\<close> should flush and
  append a space when \<open>now - last_state_change_time\<close> has reached the word-gap threshold
  and the message does not end with a space. The code misses the threshold value itself.
  After a dash ending at time 1 the LED stays off; at time 2 the silence is exactly
  \<open>WORD_GAP_THRESHOLD_S\<close>, the polling interval has elapsed and the message is empty,
  yet the check leaves the buffer \<open>-\<close> and the empty message as they are, where a
  rising edge at the same state and time flushes \<open>T\<close> and appends the space: line 180
  compares with \<^verbatim>\<open>>\<close>, line 162 with \<^verbatim>\<open>>=\<close>.
\<close>

theorem silence_check_boundary_divergence:
  "led_state (run (initial 0 0) [Sample 0.5 True, Sample 1 False]) = 0
   \<and> current_morse_symbol (run (initial 0 0) [Sample 0.5 True, Sample 1 False]) = ''-''
   \<and> 2 - last_state_change_time (run (initial 0 0) [Sample 0.5 True, Sample 1 False])
        \<ge> WORD_GAP_THRESHOLD_S
   \<and> 2 - last_print_time (run (initial 0 0) [Sample 0.5 True, Sample 1 False])
        > PRINT_INTERVAL
   \<and> \<not> endswith (decoded_message (run (initial 0 0) [Sample 0.5 True, Sample 1 False])) '' ''
   \<and> current_morse_symbol
        (state_machine (run (initial 0 0) [Sample 0.5 True, Sample 1 False]) 2 False) = ''-''
   \<and> decoded_message
        (state_machine (run (initial 0 0) [Sample 0.5 True, Sample 1 False]) 2 False) = ''''
   \<and> current_morse_symbol
        (state_machine (run (initial 0 0) [Sample 0.5 True, Sample 1 False]) 2 True) = ''''
   \<and> decoded_message
        (state_machine (run (initial 0 0) [Sample 0.5 True, Sample 1 False]) 2 True) = ''T ''"
  by (simp add: run_def initial_def state_machine_def rising_edge_def falling_edge_def
      silence_check_def flush_symbol_def decode_T Let_def endswith_def threshold_values)

text \<open>
  Away from the threshold value the silence check does what is asked of it. With the
  polling interval elapsed and a message that does not end with a space, a silence
  longer than the word-gap threshold flushes a non-empty buffer and appends one space;
  a silence shorter than the threshold, a message that already ends with a space, or a
  polling interval that has not elapsed leaves both buffers unchanged. The check never
  modifies \<open>last_state_change_time\<close> and never leaves \<open>led_state = 0\<close>.
\<close>

lemma silence_check_off_boundary:
  assumes "led_state s = 0"
  shows "(PRINT_INTERVAL < now - last_print_time s
            \<and> WORD_GAP_THRESHOLD_S < now - last_state_change_time s
            \<and> \<not> endswith (decoded_message s) '' '' \<longrightarrow>
            current_morse_symbol (state_machine s now False) = ''''
          \<and> decoded_message (state_machine s now False) =
              (if current_morse_symbol s \<noteq> ''''
               then decoded_message s @ decode_morse (current_morse_symbol s) MORSE_TO_TEXT
               else decoded_message s) @ '' '')
       \<and> (\<not> PRINT_INTERVAL < now - last_print_time s
            \<or> now - last_state_change_time s < WORD_GAP_THRESHOLD_S
            \<or> endswith (decoded_message s) '' '' \<longrightarrow>
            current_morse_symbol (state_machine s now False) = current_morse_symbol s
          \<and> decoded_message (state_machine s now False) = decoded_message s)
       \<and> last_state_change_time (state_machine s now False) = last_state_change_time s
       \<and> led_state (state_machine s now False) = 0"
  using assms
  by (auto simp: state_machine_def silence_check_def flush_symbol_def Let_def)

subsection \<open>The clear command\<close>

text \<open>
  C8, as stated, fails: the clear command changes one more variable. With the LED off
  from the start, a sample at 0.25 leaves the label \<open>IDLE\<close>; the clear command then
  sets it to \<open>OUTPUT CLEARED\<close> (line 304), so the state after the command is not the
  state before it with only the two buffers and the time replaced.
\<close>

theorem clear_output_label_counterexample:
  "display_symbol_action (run (initial 0 0) [Sample 0.25 False]) = ''IDLE''
   \<and> display_symbol_action (clear_output (run (initial 0 0) [Sample 0.25 False]) 0.5)
       = ''OUTPUT CLEARED''
   \<and> clear_output (run (initial 0 0) [Sample 0.25 False]) 0.5 \<noteq>
       (run (initial 0 0) [Sample 0.25 False])
         \<lparr>current_morse_symbol := '''', decoded_message := '''',
          last_state_change_time := 0.5\<rparr>"
  by (simp add: run_def initial_def state_machine_def silence_check_def clear_output_def
      Let_def threshold_values)

text \<open>
  C8 (amended). The clear command empties the symbol buffer and the message, sets
  \<open>last_state_change_time\<close> to the current time and sets the last-action label
  \<open>display_symbol_action\<close> to \<open>OUTPUT CLEARED\<close>; it changes nothing else: the state
  after the command is the state before it with exactly these four variables replaced,
  and in particular \<open>led_state\<close> (and \<open>last_print_time\<close>) keep their values.
\<close>

theorem clear_output_frame:
  "clear_output s now =
     s\<lparr>current_morse_symbol := '''', decoded_message := '''',
       display_symbol_action := ''OUTPUT CLEARED'', last_state_change_time := now\<rparr>
   \<and> current_morse_symbol (clear_output s now) = ''''
   \<and> decoded_message (clear_output s now) = ''''
   \<and> last_state_change_time (clear_output s now) = now
   \<and> display_symbol_action (clear_output s now) = ''OUTPUT CLEARED''
   \<and> led_state (clear_output s now) = led_state s
   \<and> last_print_time (clear_output s now) = last_print_time s"
  by (simp add: clear_output_def)

subsection \<open>Invariants of the message\<close>

lemma has_double_space_snoc:
  "has_double_space (xs @ [c]) \<longleftrightarrow>
     has_double_space xs \<or> (xs \<noteq> [] \<and> last xs = space \<and> c = space)"
  by (induction xs rule: has_double_space.induct) auto

lemma has_double_space_index:
  "has_double_space xs \<longleftrightarrow>
     (\<exists>i. Suc i < length xs \<and> xs ! i = space \<and> xs ! Suc i = space)"
proof (induction xs rule: has_double_space.induct)
  case 1
  then show ?case by simp
next
  case (2 x)
  then show ?case by simp
next
  case (3 x y zs)
  show ?case
  proof
    assume "has_double_space (x # y # zs)"
    then consider "x = space \<and> y = space" | "has_double_space (y # zs)" by auto
    then show "\<exists>i. Suc i < length (x # y # zs) \<and> (x # y # zs) ! i = space
                 \<and> (x # y # zs) ! Suc i = space"
    proof cases
      case 1
      then have "Suc 0 < length (x # y # zs) \<and> (x # y # zs) ! 0 = space
                 \<and> (x # y # zs) ! Suc 0 = space" by simp
      then show ?thesis by blast
    next
      case 2
      with 3 obtain i where "Suc i < length (y # zs)" "(y # zs) ! i = space"
        "(y # zs) ! Suc i = space" by blast
      then have "Suc (Suc i) < length (x # y # zs) \<and> (x # y # zs) ! Suc i = space
                 \<and> (x # y # zs) ! Suc (Suc i) = space" by simp
      then show ?thesis by blast
    qed
  next
    assume "\<exists>i. Suc i < length (x # y # zs) \<and> (x # y # zs) ! i = space
                 \<and> (x # y # zs) ! Suc i = space"
    then obtain i where i: "Suc i < length (x # y # zs)" "(x # y # zs) ! i = space"
      "(x # y # zs) ! Suc i = space" by blast
    show "has_double_space (x # y # zs)"
    proof (cases i)
      case 0
      with i show ?thesis by simp
    next
      case (Suc j)
      with i have "Suc j < length (y # zs) \<and> (y # zs) ! j = space \<and> (y # zs) ! Suc j = space"
        by simp
      with 3 have "has_double_space (y # zs)" by blast
      then show ?thesis by simp
    qed
  qed
qed

lemma has_double_space_snoc2:
  "has_double_space (xs @ [c, d]) \<longleftrightarrow>
     has_double_space (xs @ [c]) \<or> (c = space \<and> d = space)"
  using has_double_space_snoc [of "xs @ [c]" d] by simp

lemma state_machine_no_double_space:
  assumes "\<not> has_double_space (decoded_message s)"
  shows "\<not> has_double_space (decoded_message (state_machine s t on))"
proof -
  obtain c where c: "decode_morse (current_morse_symbol s) MORSE_TO_TEXT = [c]" "c \<noteq> space"
    using decode_morse_char by blast
  with assms show ?thesis
    by (auto simp: state_machine_def rising_edge_def silence_check_def falling_edge_def
        flush_symbol_def Let_def has_double_space_snoc has_double_space_snoc2 endswith_space)
qed

lemma step_no_double_space:
  "\<not> has_double_space (decoded_message s) \<Longrightarrow> \<not> has_double_space (decoded_message (step s e))"
  by (cases e) (simp_all add: state_machine_no_double_space clear_output_def)

lemma run_no_double_space:
  "\<not> has_double_space (decoded_message s) \<Longrightarrow> \<not> has_double_space (decoded_message (run s evs))"
  unfolding run_def
  by (induction evs arbitrary: s) (simp_all add: step_no_double_space)

lemma final_decode_no_double_space:
  assumes "\<not> has_double_space (decoded_message s)"
  shows "\<not> has_double_space (decoded_message (final_decode s))"
proof -
  obtain c where c: "decode_morse (current_morse_symbol s) MORSE_TO_TEXT = [c]" "c \<noteq> space"
    using decode_morse_char by blast
  with assms show ?thesis
    by (auto simp: final_decode_def has_double_space_snoc)
qed

lemma state_machine_alphabet:
  assumes "set (decoded_message s) \<subseteq> message_alphabet"
  shows "set (decoded_message (state_machine s t on)) \<subseteq> message_alphabet"
proof -
  obtain c where c: "decode_morse (current_morse_symbol s) MORSE_TO_TEXT = [c]"
    "c \<in> message_alphabet"
    using decode_morse_char by blast
  have sp: "CHR '' '' \<in> message_alphabet" by (simp add: message_alphabet_def)
  from assms c sp show ?thesis
    by (auto simp: state_machine_def rising_edge_def silence_check_def falling_edge_def
        flush_symbol_def Let_def)
qed

lemma step_alphabet:
  "set (decoded_message s) \<subseteq> message_alphabet
   \<Longrightarrow> set (decoded_message (step s e)) \<subseteq> message_alphabet"
  by (cases e) (simp_all add: state_machine_alphabet clear_output_def)

lemma run_alphabet:
  "set (decoded_message s) \<subseteq> message_alphabet
   \<Longrightarrow> set (decoded_message (run s evs)) \<subseteq> message_alphabet"
  unfolding run_def
  by (induction evs arbitrary: s) (simp_all add: step_alphabet)

lemma final_decode_alphabet:
  assumes "set (decoded_message s) \<subseteq> message_alphabet"
  shows "set (decoded_message (final_decode s)) \<subseteq> message_alphabet"
proof -
  obtain c where c: "decode_morse (current_morse_symbol s) MORSE_TO_TEXT = [c]"
    "c \<in> message_alphabet"
    using decode_morse_char by blast
  with assms show ?thesis
    by (auto simp: final_decode_def)
qed

text \<open>Every state the loop reaches is reached by a sequence of events.\<close>

lemma main_loop_run: "\<exists>evs. main_loop s fs = run s evs"
proof (induction s fs rule: main_loop.induct)
  case (1 s)
  have "main_loop s [] = run s []" by (simp add: run_def)
  then show ?case by blast
next
  case (2 s fs)
  have "main_loop s (ReadFailed # fs) = run s []" by (simp add: run_def)
  then show ?case by blast
next
  case (3 s fs)
  then show ?case by simp
next
  case (4 s current_time is_led_on k fs)
  let ?s1 = "state_machine s current_time is_led_on"
  show ?case
  proof (cases k)
    case NoKey
    with 4 obtain evs where "main_loop ?s1 fs = run ?s1 evs" by auto
    with NoKey have "main_loop s (Frame current_time is_led_on k # fs)
                     = run s (Sample current_time is_led_on # evs)"
      by (simp add: run_def)
    then show ?thesis by blast
  next
    case KeyQ
    then have "main_loop s (Frame current_time is_led_on k # fs)
               = run s [Sample current_time is_led_on]"
      by (simp add: run_def)
    then show ?thesis by blast
  next
    case (KeyC now)
    with 4 obtain evs where "main_loop (clear_output ?s1 now) fs = run (clear_output ?s1 now) evs"
      by auto
    with KeyC have "main_loop s (Frame current_time is_led_on k # fs)
                    = run s (Sample current_time is_led_on # Clear now # evs)"
      by (simp add: run_def)
    then show ?thesis by blast
  qed
qed

lemma main_loop_alphabet:
  "set (decoded_message (main_loop (initial t0 t1) frames)) \<subseteq> message_alphabet"
proof -
  obtain evs where "main_loop (initial t0 t1) frames = run (initial t0 t1) evs"
    using main_loop_run by blast
  moreover have "set (decoded_message (initial t0 t1)) \<subseteq> message_alphabet"
    by (simp add: initial_def)
  ultimately show ?thesis by (simp add: run_alphabet)
qed

text \<open>
  C2. From the initial state, after any sequence of samples (silence checks included) and
  clear commands, the message has no two consecutive spaces; the same holds for the
  message after the final decode at the end of the main loop.
\<close>

theorem no_double_space:
  "\<not> has_double_space (decoded_message (run (initial t0 t1) evs))
   \<and> \<not> has_double_space (decoded_message (final_decode (main_loop (initial t0 t1) frames)))
   \<and> \<not> (\<exists>i. Suc i < length (decoded_message (run (initial t0 t1) evs))
            \<and> decoded_message (run (initial t0 t1) evs) ! i = CHR '' ''
            \<and> decoded_message (run (initial t0 t1) evs) ! Suc i = CHR '' '')"
proof -
  have init: "\<not> has_double_space (decoded_message (initial t0 t1))"
    by (simp add: initial_def)
  have a: "\<not> has_double_space (decoded_message (run (initial t0 t1) evs))" for evs
    using init by (rule run_no_double_space)
  obtain evs' where "main_loop (initial t0 t1) frames = run (initial t0 t1) evs'"
    using main_loop_run by blast
  with a [of evs'] have b:
    "\<not> has_double_space (decoded_message (final_decode (main_loop (initial t0 t1) frames)))"
    by (simp add: final_decode_no_double_space)
  from a [of evs] have c:
    "\<not> (\<exists>i. Suc i < length (decoded_message (run (initial t0 t1) evs))
            \<and> decoded_message (run (initial t0 t1) evs) ! i = CHR '' ''
            \<and> decoded_message (run (initial t0 t1) evs) ! Suc i = CHR '' '')"
    by (simp add: has_double_space_index space_def)
  from a b c show ?thesis by blast
qed

text \<open>
  C10. From the initial state, after any sequence of samples and clear commands, every
  character of the message is an uppercase letter, a digit, \<open>#\<close> or a space; the same
  holds for the message after the final decode at the end of the main loop.
\<close>

theorem message_characters:
  "set (decoded_message (run (initial t0 t1) evs))
     \<subseteq> set ''ABCDEFGHIJKLMNOPQRSTUVWXYZ0123456789# ''
   \<and> set (decoded_message (final_decode (main_loop (initial t0 t1) frames)))
     \<subseteq> set ''ABCDEFGHIJKLMNOPQRSTUVWXYZ0123456789# ''"
proof -
  have init: "set (decoded_message (initial t0 t1)) \<subseteq> message_alphabet"
    by (simp add: initial_def)
  have a: "set (decoded_message (run (initial t0 t1) evs)) \<subseteq> message_alphabet" for evs
    using init by (rule run_alphabet)
  obtain evs' where "main_loop (initial t0 t1) frames = run (initial t0 t1) evs'"
    using main_loop_run by blast
  with a [of evs'] have
    "set (decoded_message (final_decode (main_loop (initial t0 t1) frames))) \<subseteq> message_alphabet"
    by (simp add: final_decode_alphabet)
  with a [of evs] show ?thesis
    unfolding message_alphabet_def by blast
qed

subsection \<open>The final decode\<close>

lemma alphabet_isspace_all:
  "list_all (\<lambda>c. py_isspace c \<longleftrightarrow> c = space) ''ABCDEFGHIJKLMNOPQRSTUVWXYZ0123456789# ''"
  by (simp add: py_isspace_def space_def)

lemma alphabet_isspace: "c \<in> message_alphabet \<Longrightarrow> py_isspace c \<longleftrightarrow> c = space"
  using alphabet_isspace_all unfolding message_alphabet_def list_all_iff by blast

lemma strip_trim_spaces:
  assumes "set xs \<subseteq> message_alphabet"
  shows "strip xs = trim_spaces xs"
proof -
  have a: "dropWhile py_isspace xs = dropWhile (\<lambda>c. c = space) xs"
    using assms by (intro dropWhile_cong) (auto simp: alphabet_isspace)
  have "set (rev (dropWhile (\<lambda>c. c = space) xs)) \<subseteq> message_alphabet"
    using assms set_dropWhileD by fastforce
  then have "dropWhile py_isspace (rev (dropWhile (\<lambda>c. c = space) xs))
             = dropWhile (\<lambda>c. c = space) (rev (dropWhile (\<lambda>c. c = space) xs))"
    by (intro dropWhile_cong) (auto simp: alphabet_isspace)
  with a show ?thesis by (simp add: strip_def trim_spaces_def)
qed

text \<open>
  C5, as stated, fails. After one dot (LED on from 0.5 to 0.75) the buffer holds \<open>.\<close>
  and the message is empty. The final decode appends \<open>E\<close> and leaves the buffer as it
  is, so a second application appends \<open>E\<close> again.
\<close>

theorem final_decode_twice_counterexample:
  "current_morse_symbol (run (initial 0 0) [Sample 0.5 True, Sample 0.75 False]) = ''.''
   \<and> decoded_message (run (initial 0 0) [Sample 0.5 True, Sample 0.75 False]) = ''''
   \<and> current_morse_symbol
        (final_decode (run (initial 0 0) [Sample 0.5 True, Sample 0.75 False])) = ''.''
   \<and> decoded_message
        (final_decode (run (initial 0 0) [Sample 0.5 True, Sample 0.75 False])) = ''E''
   \<and> decoded_message
        (final_decode (final_decode (run (initial 0 0) [Sample 0.5 True, Sample 0.75 False])))
      = ''EE''"
  by (simp add: run_def initial_def state_machine_def rising_edge_def falling_edge_def
      final_decode_def decode_E Let_def
      DOT_DASH_THRESHOLD_S_def LETTER_GAP_THRESHOLD_S_def WORD_GAP_THRESHOLD_S_def)


text \<open>
  C5 (amended). The final decode appends the decoded character of a non-empty symbol
  buffer to the message and leaves the buffer unchanged (it is not emptied); the text
  the program prints is the message after the final decode with leading and trailing
  spaces removed; applied again, the final decode changes nothing when the buffer is
  empty.
\<close>

theorem final_decode_effect:
  "decoded_message (final_decode s) =
     (if current_morse_symbol s \<noteq> ''''
      then decoded_message s @ decode_morse (current_morse_symbol s) MORSE_TO_TEXT
      else decoded_message s)
   \<and> current_morse_symbol (final_decode s) = current_morse_symbol s
   \<and> (set (decoded_message s) \<subseteq> set ''ABCDEFGHIJKLMNOPQRSTUVWXYZ0123456789# '' \<longrightarrow>
        final_output s = trim_spaces (decoded_message (final_decode s)))
   \<and> main_receiver True t0 t1 frames =
        Some (trim_spaces (decoded_message (final_decode (main_loop (initial t0 t1) frames))))
   \<and> (current_morse_symbol s = '''' \<longrightarrow> final_decode (final_decode s) = final_decode s)"
proof -
  have out: "final_output r = trim_spaces (decoded_message (final_decode r))"
    if "set (decoded_message r) \<subseteq> message_alphabet" for r
  proof -
    from that have "set (decoded_message (final_decode r)) \<subseteq> message_alphabet"
      by (rule final_decode_alphabet)
    then show ?thesis
      unfolding final_output_def by (rule strip_trim_spaces)
  qed
  have a: "set (decoded_message s) \<subseteq> set ''ABCDEFGHIJKLMNOPQRSTUVWXYZ0123456789# '' \<longrightarrow>
        final_output s = trim_spaces (decoded_message (final_decode s))"
    using out [of s] unfolding message_alphabet_def by blast
  have "set (decoded_message (main_loop (initial t0 t1) frames)) \<subseteq> message_alphabet"
    by (rule main_loop_alphabet)
  then have b: "main_receiver True t0 t1 frames =
        Some (trim_spaces (decoded_message (final_decode (main_loop (initial t0 t1) frames))))"
    by (simp add: main_receiver_def out)
  from a b show ?thesis by (simp add: final_decode_def)
qed

text \<open>
  A pending \<open>....\<close> is appended as \<open>H\<close> and the surrounding spaces are removed; with
  an empty buffer a second final decode changes nothing.
\<close>

theorem final_decode_effect_witness:
  "set (decoded_message \<lparr>led_state = 0, current_morse_symbol = ''....'',
      decoded_message = '' E T '', last_state_change_time = 4,
      display_symbol_action = ''DOT'', last_print_time = 3\<rparr>)
     \<subseteq> set ''ABCDEFGHIJKLMNOPQRSTUVWXYZ0123456789# ''
   \<and> final_output \<lparr>led_state = 0, current_morse_symbol = ''....'',
      decoded_message = '' E T '', last_state_change_time = 4,
      display_symbol_action = ''DOT'', last_print_time = 3\<rparr>
     = ''E T H''
   \<and> current_morse_symbol \<lparr>led_state = 0, current_morse_symbol = '''',
      decoded_message = ''E '', last_state_change_time = 4,
      display_symbol_action = ''WORD_SPACE'', last_print_time = 3\<rparr> = ''''
   \<and> final_decode (final_decode \<lparr>led_state = 0, current_morse_symbol = '''',
        decoded_message = ''E '', last_state_change_time = 4,
        display_symbol_action = ''WORD_SPACE'', last_print_time = 3\<rparr>)
     = final_decode \<lparr>led_state = 0, current_morse_symbol = '''',
        decoded_message = ''E '', last_state_change_time = 4,
        display_symbol_action = ''WORD_SPACE'', last_print_time = 3\<rparr>"
proof -
  let ?s = "\<lparr>led_state = 0, current_morse_symbol = ''....'', decoded_message = '' E T '',
      last_state_change_time = 4, display_symbol_action = ''DOT'', last_print_time = 3\<rparr>"
  let ?r = "\<lparr>led_state = 0, current_morse_symbol = '''', decoded_message = ''E '',
      last_state_change_time = 4, display_symbol_action = ''WORD_SPACE'',
      last_print_time = 3\<rparr>"
  have h: "set (decoded_message ?s) \<subseteq> set ''ABCDEFGHIJKLMNOPQRSTUVWXYZ0123456789# ''"
    by simp
  have e: "current_morse_symbol ?r = ''''" by simp
  from final_decode_effect [of ?s]
  have m: "decoded_message (final_decode ?s) = '' E T H''"
    by (simp add: decode_H)
  from final_decode_effect [of ?s] h
  have o: "final_output ?s = trim_spaces (decoded_message (final_decode ?s))"
    by blast
  have "trim_spaces '' E T H'' = ''E T H''"
    by (simp add: trim_spaces_def space_def)
  with m o have f: "final_output ?s = ''E T H''" by simp
  from final_decode_effect [of ?r] e
  have i: "final_decode (final_decode ?r) = final_decode ?r" by blast
  from h f e i show ?thesis by blast
qed

end
